theory Spec2Isabelle
  imports Complex_Main "HOL-Library.Log_Nat"
begin

section \<open>JavaScript values\<close>

text \<open>
  The front-end modules are JavaScript. A number is an IEEE 754 double: one of the
  three non-finite values or a finite one, kept as the real number it stands for (the
  sign of zero is not kept). A string is a list of code units, written as a
  \<open>string\<close>, so \<open>length\<close> is JavaScript's \<open>.length\<close> on strings whose code units are
  below 256.
\<close>

datatype jsnum = NaN | NegInfinity | Finite real | PosInfinity

datatype jsval =
    JUndefined
  | JNull
  | JBoolean bool
  | JNumber jsnum
  | JString string
  | JObject "(string \<times> jsval) list"

datatype js_error = TypeError

text \<open>
  Reading a property: \<open>undefined\<close> and \<open>null\<close> have none (the read throws a
  TypeError), a plain object yields the stored value or \<open>undefined\<close>, and the other
  primitives have only the properties of their prototypes, none of which carries one
  of the names read in this development.
\<close>

fun get_property :: "jsval \<Rightarrow> string \<Rightarrow> js_error + jsval" where
  "get_property JUndefined k = Inl TypeError"
| "get_property JNull k = Inl TypeError"
| "get_property (JObject kvs) k =
     Inr (case map_of kvs k of None \<Rightarrow> JUndefined | Some v \<Rightarrow> v)"
| "get_property v k = Inr JUndefined"

text \<open>The comparison \<open>a <= b\<close> of two numbers: false as soon as one is NaN.\<close>

fun js_le :: "jsnum \<Rightarrow> jsnum \<Rightarrow> bool" where
  "js_le NaN b = False"
| "js_le a NaN = False"
| "js_le NegInfinity b = True"
| "js_le a PosInfinity = True"
| "js_le (Finite x) (Finite y) = (x \<le> y)"
| "js_le a b = False"

subsection \<open>Double arithmetic\<close>

text \<open>
  An operation on finite doubles returns the exact result rounded to the nearest
  double, a tie going to the even significand. A double has 53 significant bits: for
  \<open>2 ^ e \<le> |x| < 2 ^ (e + 1)\<close> the doubles around \<open>x\<close> are the multiples of
  \<open>2 ^ (e - 52)\<close>, and below \<open>2 ^ (- 1022)\<close>, in the subnormal range, the multiples of
  \<open>2 ^ (- 1074)\<close>. A rounded result of magnitude \<open>2 ^ 1024\<close> or more is an infinity.
\<close>

text \<open>The binade of a non-zero number: the \<open>e\<close> with \<open>2 ^ e \<le> |x| < 2 ^ (e + 1)\<close>.\<close>

definition binade :: "real \<Rightarrow> int" where
  "binade x =
     (if 1 \<le> \<bar>x\<bar> then bitlen \<lfloor>\<bar>x\<bar>\<rfloor> - 1
      else - bitlen (\<lceil>1 / \<bar>x\<bar>\<rceil> - 1))"

text \<open>The nearest integer, a tie going to the even one.\<close>

definition round_half_even :: "real \<Rightarrow> int" where
  "round_half_even x =
     (let f = \<lfloor>x\<rfloor>; d = x - of_int f
      in if d < 1 / 2 then f
         else if 1 / 2 < d then f + 1
         else if even f then f else f + 1)"

text \<open>The spacing of the doubles around \<open>x\<close>.\<close>

definition double_quantum :: "real \<Rightarrow> real" where
  "double_quantum x = 2 powi (max (binade x) (- 1022) - 52)"

definition round_to_double :: "real \<Rightarrow> real" where
  "round_to_double x =
     (if x = 0 then 0
      else of_int (round_half_even (x / double_quantum x)) * double_quantum x)"

text \<open>The double that an exact result becomes.\<close>

definition js_number :: "real \<Rightarrow> jsnum" where
  "js_number x =
     (let y = round_to_double x
      in if 2 ^ 1024 \<le> y then PosInfinity
         else if y \<le> - (2 ^ 1024) then NegInfinity
         else Finite y)"

text \<open>The sum \<open>a + b\<close> of two numbers.\<close>

fun js_add :: "jsnum \<Rightarrow> jsnum \<Rightarrow> jsnum" where
  "js_add NaN b = NaN"
| "js_add a NaN = NaN"
| "js_add (Finite x) (Finite y) = js_number (x + y)"
| "js_add PosInfinity NegInfinity = NaN"
| "js_add NegInfinity PosInfinity = NaN"
| "js_add PosInfinity b = PosInfinity"
| "js_add NegInfinity b = NegInfinity"
| "js_add (Finite x) b = b"

definition js_sign :: "jsnum \<Rightarrow> int" where
  "js_sign a =
     (case a of
        NaN \<Rightarrow> 0
      | NegInfinity \<Rightarrow> - 1
      | PosInfinity \<Rightarrow> 1
      | Finite x \<Rightarrow> (if 0 < x then 1 else if x < 0 then - 1 else 0))"

text \<open>
  The product \<open>a * b\<close> of two numbers; an infinity times zero is NaN, and otherwise an
  infinity with the sign of the product.
\<close>

fun js_mul :: "jsnum \<Rightarrow> jsnum \<Rightarrow> jsnum" where
  "js_mul NaN b = NaN"
| "js_mul a NaN = NaN"
| "js_mul (Finite x) (Finite y) = js_number (x * y)"
| "js_mul a b =
     (if js_sign a * js_sign b = 0 then NaN
      else if 0 < js_sign a * js_sign b then PosInfinity else NegInfinity)"

text \<open>
  \<open>Math.round\<close>: the nearest integer, a tie going up. The result of rounding a finite
  double is a double, so nothing is rounded a second time.
\<close>

fun Math_round :: "jsnum \<Rightarrow> jsnum" where
  "Math_round (Finite x) = Finite (of_int \<lfloor>x + 1 / 2\<rfloor>)"
| "Math_round a = a"

section \<open>aiGenerator.js\<close>

text \<open>
  \<^verbatim>\<open>
  export function generateAIPrice({ category, condition }) {
    const base = 20 + Math.random() * 30;
    return Math.round(base);
  }
  \<close>
  The parameter pattern reads \<open>category\<close> and \<open>condition\<close> off the argument, which
  throws on \<open>undefined\<close> and \<open>null\<close>; the body uses neither. \<open>Math.random\<close> is the
  runtime's generator: the model takes it as the parameter \<open>Math_random\<close>, a function
  from the generator's state \<open>g\<close> to the number drawn and the next state, and a run
  returns its outcome together with the state it leaves the generator in. The product
  and the sum are double operations.
\<close>

definition generateAIPrice ::
  "('g \<Rightarrow> real \<times> 'g) \<Rightarrow> jsval \<Rightarrow> 'g \<Rightarrow> (js_error + jsval) \<times> 'g" where
  "generateAIPrice Math_random arg g =
     (case get_property arg ''category'' of
        Inl e \<Rightarrow> (Inl e, g)
      | Inr category \<Rightarrow>
          (case get_property arg ''condition'' of
             Inl e \<Rightarrow> (Inl e, g)
           | Inr condition \<Rightarrow>
               (let (random, g') = Math_random g;
                    base = js_add (Finite 20) (js_mul (Finite random) (Finite 30))
                in (Inr (JNumber (Math_round base)), g'))))"

section \<open>formValidator.js\<close>

text \<open>
  A form field is an element of the page; the validator reads its \<open>id\<close>, its
  \<open>type\<close> and its \<open>value\<close>, all strings.
\<close>

record field =
  field_id :: string
  field_type :: string
  field_value :: string

text \<open>
  \<open>String.prototype.trim\<close> removes white space and line terminators from both ends.
  Among the code units below 256 these are TAB, LF, VT, FF, CR, SP and NBSP.
\<close>

definition js_whitespace :: "char \<Rightarrow> bool" where
  "js_whitespace c = (of_char c \<in> {9, 10, 11, 12, 13, 32, 160 :: nat})"

definition trim :: "string \<Rightarrow> string" where
  "trim s = rev (dropWhile js_whitespace (rev (dropWhile js_whitespace s)))"

text \<open>
  The callback \<open>onError(field, error)\<close> belongs to the caller. The model records each
  call, in order: the field (\<open>None\<close> for \<open>null\<close>) and the message. The callback is
  taken to return normally and to leave the page as it is.
\<close>

type_synonym onError_calls = "(field option \<times> string) list"

text \<open>
  \<^verbatim>\<open>
  export function validateField(field, onError) {
    const value = field.value.trim();
    let error = '';
    if (!value) {
      error = 'This field is required';
    } else if (field.type === 'number' && parseFloat(value) <= 0) {
      error = 'Please enter a valid number';
    } else if (field.id === 'title-input' && value.length < 10) {
      error = 'Title must be at least 10 characters';
    } else if (field.id === 'description-input' && value.length < 20) {
      error = 'Description must be at least 20 characters';
    }
    if (error) {
      onError(field, error);
      return false;
    }
    return true;
  }
  \<close>
  \<open>parseFloat\<close> is the runtime's; the model takes it as the parameter \<open>parseFloat\<close>.
  An empty string is the only falsy string, so \<open>!value\<close> is \<open>v = []\<close> and
  \<open>if (error)\<close> is \<open>error \<noteq> []\<close>.
\<close>

definition validateField ::
  "(string \<Rightarrow> jsnum) \<Rightarrow> field \<Rightarrow> onError_calls \<Rightarrow> bool \<times> onError_calls" where
  "validateField parseFloat fld calls =
     (let v = trim (field_value fld);
          error =
            (if v = [] then ''This field is required''
             else if field_type fld = ''number'' \<and> js_le (parseFloat v) (Finite 0)
               then ''Please enter a valid number''
             else if field_id fld = ''title-input'' \<and> length v < 10
               then ''Title must be at least 10 characters''
             else if field_id fld = ''description-input'' \<and> length v < 20
               then ''Description must be at least 20 characters''
             else [])
      in if error \<noteq> [] then (False, calls @ [(Some fld, error)]) else (True, calls))"

text \<open>
  \<^verbatim>\<open>
  export function validateForm({ requiredFieldIds = [], uploadedImages = [], onError }) {
    let isValid = true;
    if (uploadedImages.length === 0) {
      onError(null, 'Please upload at least one image');
      isValid = false;
    }
    requiredFieldIds.forEach((id) => {
      const field = document.getElementById(id);
      if (field && !validateField(field, onError)) {
        isValid = false;
      }
    });
    return isValid;
  }
  \<close>
  An argument left out is \<open>None\<close> and takes its default. The page is the lookup
  \<open>getElementById\<close>, \<open>None\<close> where it returns \<open>null\<close>. The loop body is
  \<open>validateForm_step\<close>, run over the ids from left to right.
\<close>

record 'img validateForm_args =
  requiredFieldIds :: "string list option"
  uploadedImages :: "'img list option"

definition or_default :: "'a option \<Rightarrow> 'a \<Rightarrow> 'a" where
  "or_default arg dflt = (case arg of None \<Rightarrow> dflt | Some x \<Rightarrow> x)"

definition validateForm_step ::
  "(string \<Rightarrow> jsnum) \<Rightarrow> (string \<Rightarrow> field option) \<Rightarrow> bool \<times> onError_calls \<Rightarrow> string
     \<Rightarrow> bool \<times> onError_calls" where
  "validateForm_step parseFloat getElementById st ident =
     (case getElementById ident of
        None \<Rightarrow> st
      | Some fld \<Rightarrow>
          (let (ok, calls') = validateField parseFloat fld (snd st)
           in (if \<not> ok then False else fst st, calls')))"

definition validateForm ::
  "(string \<Rightarrow> jsnum) \<Rightarrow> (string \<Rightarrow> field option) \<Rightarrow> 'img validateForm_args \<Rightarrow> onError_calls
     \<Rightarrow> bool \<times> onError_calls" where
  "validateForm parseFloat getElementById args calls =
     (let ids = or_default (requiredFieldIds args) [];
          images = or_default (uploadedImages args) [];
          st = (if length images = 0
                then (False, calls @ [(None, ''Please upload at least one image'')])
                else (True, calls))
      in foldl (validateForm_step parseFloat getElementById) st ids)"

subsection \<open>A decimal reading of parseFloat\<close>

text \<open>
  \<open>parseFloat\<close> skips leading white space and reads the longest prefix that is a
  decimal literal: an optional sign, then \<open>Infinity\<close>, or digits with an optional
  fraction and exponent; \<open>NaN\<close> when there is none. \<open>parseFloat_dec\<close> computes the exact
  value of that literal; the runtime rounds it to a double. The theorems about the
  validator hold for every \<open>parseFloat\<close>; this one evaluates them on concrete fields.
\<close>

definition is_digit :: "char \<Rightarrow> bool" where
  "is_digit c = (48 \<le> (of_char c :: nat) \<and> (of_char c :: nat) \<le> 57)"

definition digits_value :: "string \<Rightarrow> nat" where
  "digits_value ds = foldl (\<lambda>acc c. 10 * acc + (of_char c - 48)) 0 ds"

definition pow10 :: "int \<Rightarrow> real" where
  "pow10 e = (if 0 \<le> e then 10 ^ nat e else 1 / 10 ^ nat (- e))"

text \<open>The exponent part at the head of \<open>s\<close>, 0 when \<open>s\<close> does not start with one.\<close>

definition exponent_part :: "string \<Rightarrow> int" where
  "exponent_part s =
     (case s of
        [] \<Rightarrow> 0
      | c # t \<Rightarrow>
          if c = CHR ''e'' \<or> c = CHR ''E'' then
            (let (neg, u) =
               (case t of
                  [] \<Rightarrow> (False, t)
                | d # t' \<Rightarrow>
                    if d = CHR ''-'' then (True, t')
                    else if d = CHR ''+'' then (False, t')
                    else (False, t));
                 ds = takeWhile is_digit u
             in if ds = [] then 0
                else if neg then - int (digits_value ds) else int (digits_value ds))
          else 0)"

definition parseFloat_dec :: "string \<Rightarrow> jsnum" where
  "parseFloat_dec s =
     (let s1 = dropWhile js_whitespace s;
          (neg, s2) =
            (case s1 of
               [] \<Rightarrow> (False, s1)
             | c # t \<Rightarrow>
                 if c = CHR ''-'' then (True, t)
                 else if c = CHR ''+'' then (False, t)
                 else (False, s1))
      in if take 8 s2 = ''Infinity'' then (if neg then NegInfinity else PosInfinity)
         else
           (let ip = takeWhile is_digit s2;
                r1 = dropWhile is_digit s2;
                (fp, r2) =
                  (case r1 of
                     [] \<Rightarrow> ([], r1)
                   | c # t \<Rightarrow>
                       if c = CHR ''.'' then (takeWhile is_digit t, dropWhile is_digit t)
                       else ([], r1))
            in if ip = [] \<and> fp = [] then NaN
               else
                 (let mantissa =
                        real (digits_value ip) + real (digits_value fp) / 10 ^ length fp;
                      magnitude = mantissa * pow10 (exponent_part r2)
                  in Finite (if neg then - magnitude else magnitude))))"

section \<open>The price pipeline of the specification\<close>

text \<open>
  The repository's only pricing code is \<open>generateAIPrice\<close>; the layout in
  \<open>structure.txt\<close> names \<open>core/price_scraper.py\<close> and \<open>core/price_analyzer.py\<close>,
  which are not among the sources. The normaliser and the estimator of this section
  follow the specification's sections 3 and 4. What the specification leaves to tables
  and policy (how a price string is read, the condition and size look-ups, the
  condition factor) is the configuration \<open>config\<close>.
\<close>

text \<open>Modelled from the spec: the ordered condition enumeration (section 3), best first.\<close>

datatype condition = New | LikeNew | Good | Fair | Poor

text \<open>Modelled from the spec: the condition rank, the position in that order (glossary).\<close>

fun condition_rank_of :: "condition \<Rightarrow> int" where
  "condition_rank_of New = 4"
| "condition_rank_of LikeNew = 3"
| "condition_rank_of Good = 2"
| "condition_rank_of Fair = 1"
| "condition_rank_of Poor = 0"

text \<open>
  Modelled from the spec: ScrapedListing (section 3), the raw record of the scraper; the
  price may be missing (\<open>None\<close>) or any text.
\<close>

record scraped_listing =
  raw_price :: "string option"
  title :: string
  raw_condition :: string
  raw_size :: string

text \<open>
  Modelled from the spec: the query attributes (section 3), each of them optional
  (section 6: the vision collaborator's fields are nullable).
\<close>

record query_attributes =
  brand :: "string option"
  item_type :: "string option"
  color :: "string option"
  material :: "string option"
  query_size :: "string option"
  query_condition :: "string option"

text \<open>
  Modelled from the spec: an element of ComparableSample (section 3); the rank of an
  unknown condition is \<open>None\<close> (section 9: Known(rank) or Unknown).
\<close>

record comparable =
  price :: real
  condition_rank :: "int option"
  size_match :: bool

text \<open>Modelled from the spec: the confidence enumeration (section 3).\<close>

datatype confidence_level = High | Medium | Low

text \<open>Modelled from the spec: PriceEstimate (section 3).\<close>

record price_estimate =
  recommended_price :: real
  price_range :: "real \<times> real"
  confidence :: confidence_level
  sample_size :: nat

text \<open>Modelled from the spec: the one hard error of the core (section 7).\<close>

datatype normalize_error = InvalidQuery

text \<open>
  Modelled from the spec: the explicit configuration structure of section 9: the
  reading of a raw price (step 1 of 4.1), the condition look-up table with \<open>None\<close> for
  unknown (step 3), the canonical size token with \<open>None\<close> for unknown (step 4), and the
  condition factor of 4.2 step 3, keyed to the query condition and the sample's ranks.
\<close>

record config =
  parse_price :: "string \<Rightarrow> real option"
  condition_table :: "string \<Rightarrow> condition option"
  size_token :: "string \<Rightarrow> string option"
  condition_factor :: "condition \<Rightarrow> int option list \<Rightarrow> real"

subsection \<open>Comparable Normalizer\<close>

text \<open>Modelled from the spec: case-insensitive matching (4.1 step 2), by lower-casing A to Z.\<close>

definition lower_char :: "char \<Rightarrow> char" where
  "lower_char c =
     (case map_of (zip ''ABCDEFGHIJKLMNOPQRSTUVWXYZ'' ''abcdefghijklmnopqrstuvwxyz'') c of
        None \<Rightarrow> c
      | Some d \<Rightarrow> d)"

text \<open>Modelled from the spec: the substring match of 4.1 step 2.\<close>

fun is_substring :: "string \<Rightarrow> string \<Rightarrow> bool" where
  "is_substring t [] = (t = [])"
| "is_substring t (c # s) = (take (length t) (c # s) = t \<or> is_substring t s)"

text \<open>
  Modelled from the spec: the tokens of a text (4.1 step 2), its maximal runs without
  white space; \<open>cur\<close> is the run being read, reversed.
\<close>

fun split_words :: "string \<Rightarrow> string \<Rightarrow> string list" where
  "split_words cur [] = (if cur = [] then [] else [rev cur])"
| "split_words cur (c # s) =
     (if js_whitespace c
      then (if cur = [] then split_words [] s else rev cur # split_words [] s)
      else split_words (c # cur) s)"

text \<open>Modelled from the spec: the query's brand and type tokens (4.1 step 2).\<close>

definition query_tokens :: "query_attributes \<Rightarrow> string list" where
  "query_tokens q =
     split_words [] (map lower_char (or_default (brand q) [])) @
     split_words [] (map lower_char (or_default (item_type q) []))"

text \<open>
  Modelled from the spec: the relevance filter (4.1 step 2): a listing stays when at
  least one query token occurs in its title.
\<close>

definition relevant :: "query_attributes \<Rightarrow> scraped_listing \<Rightarrow> bool" where
  "relevant q l = list_ex (\<lambda>t. is_substring t (map lower_char (title l))) (query_tokens q)"

text \<open>
  Modelled from the spec: price parsing (4.1 step 1): the price of a listing when it
  resolves to a positive number, \<open>None\<close> (the listing is dropped) otherwise.
\<close>

definition positive_price :: "config \<Rightarrow> scraped_listing \<Rightarrow> real option" where
  "positive_price cfg l =
     (case raw_price l of
        None \<Rightarrow> None
      | Some s \<Rightarrow>
          (case parse_price cfg s of
             None \<Rightarrow> None
           | Some p \<Rightarrow> if 0 < p then Some p else None))"

text \<open>
  Modelled from the spec: steps 1 to 4 of 4.1 on one listing: dropped on an unusable
  price or an irrelevant title, else its price, its condition rank and the size flag
  (true only when both size tokens are known and equal).
\<close>

definition to_comparable ::
  "config \<Rightarrow> query_attributes \<Rightarrow> scraped_listing \<Rightarrow> comparable option" where
  "to_comparable cfg q l =
     (case positive_price cfg l of
        None \<Rightarrow> None
      | Some p \<Rightarrow>
          if relevant q l then
            Some \<lparr>price = p,
                  condition_rank =
                    map_option condition_rank_of (condition_table cfg (raw_condition l)),
                  size_match =
                    (case (size_token cfg (raw_size l),
                           Option.bind (query_size q) (size_token cfg)) of
                       (Some a, Some b) \<Rightarrow> a = b
                     | _ \<Rightarrow> False)\<rparr>
          else None)"

text \<open>Modelled from the spec: the listings that remain after steps 1 to 4 of 4.1.\<close>

definition candidates ::
  "config \<Rightarrow> query_attributes \<Rightarrow> scraped_listing list \<Rightarrow> comparable list" where
  "candidates cfg q ls = List.map_filter (to_comparable cfg q) ls"

text \<open>
  Modelled from the spec: a percentile of a sample (Q1 and Q3 of 4.1 step 5, the 25th
  and 75th percentile of 4.2 step 5), read off the sorted sample with linear
  interpolation between neighbours; the specification names no convention.
\<close>

definition quantile :: "real \<Rightarrow> real list \<Rightarrow> real" where
  "quantile p xs =
     (let ys = sort xs;
          h = p * real (length ys - 1);
          i = nat \<lfloor>h\<rfloor>
      in if i + 1 < length ys then ys ! i + (h - real i) * (ys ! (i + 1) - ys ! i)
         else last ys)"

text \<open>Modelled from the spec: the bounds Q1 - 1.5 IQR and Q3 + 1.5 IQR of 4.1 step 5.\<close>

definition fences :: "real list \<Rightarrow> real \<times> real" where
  "fences ps =
     (let q1 = quantile (1 / 4) ps; q3 = quantile (3 / 4) ps; iqr = q3 - q1
      in (q1 - 1.5 * iqr, q3 + 1.5 * iqr))"

text \<open>
  Modelled from the spec: outlier rejection (4.1 step 5), skipped when fewer than 4
  prices remain.
\<close>

definition reject_outliers :: "comparable list \<Rightarrow> comparable list" where
  "reject_outliers es =
     (if length es < 4 then es
      else (let (lo, hi) = fences (map price es)
            in filter (\<lambda>e. lo \<le> price e \<and> price e \<le> hi) es))"

text \<open>
  Modelled from the spec: \<open>normalize(rawListings, query)\<close> (4.1 and section 6): InvalidQuery
  when the query has neither brand nor type, the trimmed sample otherwise.
\<close>

definition normalize ::
  "config \<Rightarrow> scraped_listing list \<Rightarrow> query_attributes \<Rightarrow> normalize_error + comparable list" where
  "normalize cfg rawListings q =
     (if brand q = None \<and> item_type q = None then Inl InvalidQuery
      else Inr (reject_outliers (candidates cfg q rawListings)))"

subsection \<open>Price Estimator\<close>

text \<open>
  Modelled from the spec: the median of the prices (4.2 step 2), the mean of the two
  middle ones for an even count.
\<close>

definition median :: "real list \<Rightarrow> real" where
  "median xs =
     (let ys = sort xs; n = length ys
      in if odd n then ys ! (n div 2) else (ys ! (n div 2 - 1) + ys ! (n div 2)) / 2)"

text \<open>Modelled from the spec: the mean of the sample prices (4.2 step 6).\<close>

definition mean :: "real list \<Rightarrow> real" where
  "mean xs = sum_list xs / real (length xs)"

text \<open>
  Modelled from the spec: the standard deviation of the sample prices (4.2 step 6), of
  the sample taken as the whole population.
\<close>

definition stdev :: "real list \<Rightarrow> real" where
  "stdev xs = sqrt (sum_list (map (\<lambda>x. (x - mean xs)\<^sup>2) xs) / real (length xs))"

text \<open>Modelled from the spec: the coefficient of variation, stdev/mean (4.2 step 6).\<close>

definition coefficient_of_variation :: "real list \<Rightarrow> real" where
  "coefficient_of_variation xs = stdev xs / mean xs"

text \<open>Modelled from the spec: the confidence of a non-empty sample (4.2 step 6).\<close>

definition confidence_of :: "real list \<Rightarrow> confidence_level" where
  "confidence_of ps =
     (if 8 \<le> length ps \<and> coefficient_of_variation ps < 0.3 then High
      else if 3 \<le> length ps then Medium
      else Low)"

text \<open>
  Modelled from the spec: rounding (4.2 step 4): to the integer unit when every observed
  price is an integer, to one decimal otherwise.
\<close>

definition round_to_unit :: "real list \<Rightarrow> real \<Rightarrow> real" where
  "round_to_unit ps x =
     (if list_all (\<lambda>p. p = of_int \<lfloor>p\<rfloor>) ps then of_int (round x)
      else of_int (round (x * 10)) / 10)"

text \<open>
  Modelled from the spec: the price range (4.2 step 5): the 25th and 75th percentile,
  each scaled by the condition factor, widened by 15 percent each way when they
  coincide.
\<close>

definition adjusted_range :: "real list \<Rightarrow> real \<Rightarrow> real \<times> real" where
  "adjusted_range ps f =
     (let lo = quantile (1 / 4) ps * f; hi = quantile (3 / 4) ps * f
      in if lo = hi then (lo * 0.85, hi * 1.15) else (lo, hi))"

text \<open>Modelled from the spec: the clamp of the result guarantee of 4.2.\<close>

definition clamp :: "real \<Rightarrow> real \<Rightarrow> real \<Rightarrow> real" where
  "clamp lo hi x = max lo (min hi x)"

text \<open>
  Modelled from the spec: \<open>estimate(sample, condition)\<close> (4.2), with the caller-supplied
  default price of step 1 as \<open>default_price\<close>. The result is always an estimate: the
  function has no error to return.
\<close>

definition estimate ::
  "config \<Rightarrow> real \<Rightarrow> comparable list \<Rightarrow> condition \<Rightarrow> price_estimate" where
  "estimate cfg default_price sample cond =
     (if length sample = 0 then
        \<lparr>recommended_price = default_price,
         price_range = (default_price * 0.8, default_price * 1.2),
         confidence = Low,
         sample_size = 0\<rparr>
      else
        (let ps = map price sample;
             base = median ps;
             f = condition_factor cfg cond (map condition_rank sample);
             (lo, hi) = adjusted_range ps f
         in \<lparr>recommended_price = clamp lo hi (round_to_unit ps (base * f)),
             price_range = (lo, hi),
             confidence = confidence_of ps,
             sample_size = length sample\<rparr>))"

section \<open>Concrete inputs\<close>

text \<open>Two arguments of \<open>generateAIPrice\<close> that differ in the condition only.\<close>

definition listing_new :: jsval where
  "listing_new = JObject [(''category'', JString ''dress''), (''condition'', JString ''new'')]"

definition listing_poor :: jsval where
  "listing_poor = JObject [(''category'', JString ''dress''), (''condition'', JString ''poor'')]"

text \<open>
  A generator that hands out the numbers of a list in turn (and 0 once the list is
  used up), and two draws at which double arithmetic and exact arithmetic part: at
  \<open>near_tie\<close> the exact base is below 33.5 and the double base is 33.5, and at
  \<open>just_below_one\<close>, the largest double below 1, the double base is 50.
\<close>

definition pending_draws :: "real list \<Rightarrow> real \<times> real list" where
  "pending_draws ds = (case ds of [] \<Rightarrow> (0, []) | d # rest \<Rightarrow> (d, rest))"

definition near_tie :: real where
  "near_tie = 2026619832316723 / 2 ^ 52"

definition just_below_one :: real where
  "just_below_one = 1 - 1 / 2 ^ 53"

text \<open>A page with a title that is too short, a price field and a zero price field.\<close>

definition title_field :: field where
  "title_field =
     \<lparr>field_id = ''title-input'', field_type = ''text'', field_value = '' Red dress ''\<rparr>"

definition price_field :: field where
  "price_field =
     \<lparr>field_id = ''price-input'', field_type = ''number'', field_value = ''12.50''\<rparr>"

definition zero_field :: field where
  "zero_field =
     \<lparr>field_id = ''price-input'', field_type = ''number'', field_value = '' 0 ''\<rparr>"

definition page :: "string \<Rightarrow> field option" where
  "page = map_of [(''title-input'', title_field), (''price-input'', price_field)]"

definition no_images :: "unit validateForm_args" where
  "no_images =
     \<lparr>requiredFieldIds = Some [''title-input'', ''missing'', ''price-input''],
      uploadedImages = None\<rparr>"

text \<open>
  A configuration for the examples: prices with a decimal comma or point and anything
  after the number, the five labels of the enumeration, sizes compared as trimmed
  text, and the specification's example factor table (new +15%, like-new +5%, good 0%,
  fair -10%, poor -20%).
\<close>

definition decimal_comma_price :: "string \<Rightarrow> real option" where
  "decimal_comma_price s =
     (case parseFloat_dec (map (\<lambda>c. if c = CHR '','' then CHR ''.'' else c) s) of
        Finite x \<Rightarrow> Some x
      | _ \<Rightarrow> None)"

fun example_factor :: "condition \<Rightarrow> int option list \<Rightarrow> real" where
  "example_factor New ranks = 1.15"
| "example_factor LikeNew ranks = 1.05"
| "example_factor Good ranks = 1"
| "example_factor Fair ranks = 0.9"
| "example_factor Poor ranks = 0.8"

definition example_config :: config where
  "example_config =
     \<lparr>parse_price = decimal_comma_price,
      condition_table =
        map_of [(''new'', New), (''like-new'', LikeNew), (''good'', Good),
                (''fair'', Fair), (''poor'', Poor)],
      size_token = (\<lambda>s. if trim s = [] then None else Some (trim s)),
      condition_factor = example_factor\<rparr>"

text \<open>
  The scenario of the specification's section 8: five listings for a Nike "Felpa", one
  with an unreadable price and one priced at 1000.
\<close>

definition nike_query :: query_attributes where
  "nike_query =
     \<lparr>brand = Some ''Nike'', item_type = Some ''Felpa'', color = None, material = None,
      query_size = Some ''M'', query_condition = Some ''good''\<rparr>"

definition empty_query :: query_attributes where
  "empty_query =
     \<lparr>brand = None, item_type = None, color = Some ''black'', material = None,
      query_size = Some ''M'', query_condition = Some ''good''\<rparr>"

definition listing :: "string \<Rightarrow> string \<Rightarrow> scraped_listing" where
  "listing p t = \<lparr>raw_price = Some p, title = t, raw_condition = ''good'', raw_size = ''M''\<rparr>"

definition scenario :: "scraped_listing list" where
  "scenario =
     [listing ''12,50 EUR'' ''Felpa Nike nera'', listing ''14 EUR'' ''Nike felpa M'',
      listing ''13 EUR'' ''FELPA NIKE'', listing ''bad'' ''Felpa Nike'',
      listing ''1000 EUR'' ''Felpa Nike oro'']"

definition comparable_at :: "real \<Rightarrow> comparable" where
  "comparable_at p = \<lparr>price = p, condition_rank = Some 2, size_match = True\<rparr>"

section \<open>Properties of double rounding\<close>

text \<open>
  The binade brackets the number from below, so a number below \<open>2 ^ 53\<close> has a
  quantum of at most 1 and every integer lies on its grid of doubles. Rounding to the
  nearest point of a grid never crosses a point of that grid, hence never crosses an
  integer: this is what keeps the price within its bounds in double arithmetic.
\<close>

lemma binade_lower:
  assumes "x \<noteq> 0"
  shows "2 powi binade x \<le> \<bar>x\<bar>"
proof (cases "1 \<le> \<bar>x\<bar>")
  case True
  let ?m = "\<lfloor>\<bar>x\<bar>\<rfloor>"
  from True have m: "0 < ?m" by linarith
  then have b: "1 \<le> bitlen ?m" by (simp add: bitlen_alt_def)
  have "(2::int) ^ nat (bitlen ?m - 1) \<le> ?m"
    using bitlen_bounds[OF m] by simp
  then have "real_of_int (2 ^ nat (bitlen ?m - 1)) \<le> of_int ?m"
    by (simp only: of_int_le_iff)
  also have "\<dots> \<le> \<bar>x\<bar>" by simp
  finally have "2 ^ nat (bitlen ?m - 1) \<le> \<bar>x\<bar>" by simp
  moreover have "binade x = bitlen ?m - 1" using True by (simp add: binade_def)
  ultimately show ?thesis using b by (simp add: power_int_def)
next
  case False
  let ?y = "1 / \<bar>x\<bar>"
  let ?m = "\<lceil>?y\<rceil>"
  from False assms have x: "0 < \<bar>x\<bar>" "\<bar>x\<bar> < 1" by simp_all
  then have y: "1 < ?y" by simp
  then have m: "0 < ?m - 1" by linarith
  let ?k = "bitlen (?m - 1)"
  from m have k: "1 \<le> ?k" by (simp add: bitlen_alt_def)
  have "?m - 1 < 2 ^ nat ?k" using bitlen_bounds[OF m] by simp
  then have "?m \<le> 2 ^ nat ?k" by simp
  then have "real_of_int ?m \<le> of_int (2 ^ nat ?k)" by (simp only: of_int_le_iff)
  moreover have "?y \<le> of_int ?m" by (rule le_of_int_ceiling)
  ultimately have "?y \<le> of_int (2 ^ nat ?k)" by (rule order_trans[rotated])
  then have "?y \<le> 2 ^ nat ?k" by simp
  then have "1 / 2 ^ nat ?k \<le> \<bar>x\<bar>"
    using x(1) by (simp add: field_simps)
  moreover have "binade x = - ?k" using False by (simp add: binade_def)
  ultimately show ?thesis using k
    by (simp add: power_int_def inverse_eq_divide power_one_over)
qed

lemma binade_less:
  assumes "x \<noteq> 0" and "\<bar>x\<bar> < 2 ^ n"
  shows "binade x < int n"
proof (rule ccontr)
  assume "\<not> binade x < int n"
  then have "int n \<le> binade x" by simp
  then have "(2::real) powi int n \<le> 2 powi binade x"
    by (intro power_int_increasing) simp_all
  also have "\<dots> \<le> \<bar>x\<bar>" by (rule binade_lower[OF assms(1)])
  finally show False using assms(2) by simp
qed

lemma round_half_even_cases:
  "round_half_even y = \<lfloor>y\<rfloor> \<or> (round_half_even y = \<lfloor>y\<rfloor> + 1 \<and> of_int \<lfloor>y\<rfloor> < y)"
  unfolding round_half_even_def Let_def by auto

lemma round_half_even_ge:
  assumes "of_int k \<le> y"
  shows "k \<le> round_half_even y"
proof -
  from assms have "k \<le> \<lfloor>y\<rfloor>" by (simp add: le_floor_iff)
  then show ?thesis using round_half_even_cases[of y] by auto
qed

lemma round_half_even_le:
  assumes "y \<le> of_int k"
  shows "round_half_even y \<le> k"
proof -
  from assms have f: "\<lfloor>y\<rfloor> \<le> k" using floor_mono[of y "of_int k"] by simp
  show ?thesis
    using round_half_even_cases[of y]
  proof
    assume "round_half_even y = \<lfloor>y\<rfloor>"
    with f show ?thesis by simp
  next
    assume a: "round_half_even y = \<lfloor>y\<rfloor> + 1 \<and> of_int \<lfloor>y\<rfloor> < y"
    then have "of_int \<lfloor>y\<rfloor> < (of_int k :: real)" using assms by linarith
    then have "\<lfloor>y\<rfloor> < k" by simp
    with a show ?thesis by simp
  qed
qed

lemma double_quantum_pos: "0 < double_quantum x"
  by (simp add: double_quantum_def)

lemma integer_on_double_grid:
  assumes "x \<noteq> 0" and "\<bar>x\<bar> < 2 ^ 53"
  shows "\<exists>k::int. of_int n = of_int k * double_quantum x"
proof -
  let ?e = "max (binade x) (- 1022)"
  have "binade x < 53" using binade_less[OF assms] by simp
  then have e: "?e - 52 \<le> 0" by simp
  then have q: "double_quantum x = 1 / 2 ^ nat (52 - ?e)"
    by (simp add: double_quantum_def power_int_def inverse_eq_divide power_one_over
        nat_diff_distrib' split: if_splits) 
  have "real_of_int n = of_int (n * 2 ^ nat (52 - ?e)) * double_quantum x"
    unfolding q by simp
  then show ?thesis by blast
qed

lemma round_to_double_ge_integer:
  assumes "\<bar>x\<bar> < 2 ^ 53" and "of_int n \<le> x"
  shows "of_int n \<le> round_to_double x"
proof (cases "x = 0")
  case True
  with assms(2) show ?thesis by (simp add: round_to_double_def)
next
  case False
  obtain k :: int where k: "of_int n = of_int k * double_quantum x"
    using integer_on_double_grid[OF False assms(1)] by blast
  have "of_int k \<le> x / double_quantum x"
    using assms(2) k double_quantum_pos[of x] by (simp add: pos_le_divide_eq)
  then have "k \<le> round_half_even (x / double_quantum x)"
    by (rule round_half_even_ge)
  then have "of_int k * double_quantum x \<le>
      of_int (round_half_even (x / double_quantum x)) * double_quantum x"
    using double_quantum_pos[of x] by (simp add: mult_right_mono)
  with k False show ?thesis by (simp add: round_to_double_def)
qed

lemma round_to_double_le_integer:
  assumes "\<bar>x\<bar> < 2 ^ 53" and "x \<le> of_int n"
  shows "round_to_double x \<le> of_int n"
proof (cases "x = 0")
  case True
  with assms(2) show ?thesis by (simp add: round_to_double_def)
next
  case False
  obtain k :: int where k: "of_int n = of_int k * double_quantum x"
    using integer_on_double_grid[OF False assms(1)] by blast
  have "x / double_quantum x \<le> of_int k"
    using assms(2) k double_quantum_pos[of x] by (simp add: pos_divide_le_eq)
  then have "round_half_even (x / double_quantum x) \<le> k"
    by (rule round_half_even_le)
  then have "of_int (round_half_even (x / double_quantum x)) * double_quantum x \<le>
      of_int k * double_quantum x"
    using double_quantum_pos[of x] by (simp add: mult_right_mono)
  with k False show ?thesis by (simp add: round_to_double_def)
qed

lemma js_number_finite:
  assumes "- 50 \<le> round_to_double x" and "round_to_double x \<le> 50"
  shows "js_number x = Finite (round_to_double x)"
proof -
  have "(50::real) < 2 ^ 1024" by simp
  with assms show ?thesis by (simp add: js_number_def Let_def)
qed

lemma price_base:
  fixes r :: real
  assumes "0 \<le> r" and "r < 1"
  shows "\<exists>b. js_add (Finite 20) (js_mul (Finite r) (Finite 30)) = Finite b \<and> 20 \<le> b \<and> b \<le> 50"
proof -
  let ?p = "round_to_double (r * 30)"
  have r30: "\<bar>r * 30\<bar> < 2 ^ 53" using assms by simp
  have "of_int 0 \<le> ?p"
    by (rule round_to_double_ge_integer[OF r30]) (use assms in simp)
  moreover have "?p \<le> of_int 30"
    by (rule round_to_double_le_integer[OF r30]) (use assms in simp)
  ultimately have p: "0 \<le> ?p" "?p \<le> 30" by simp_all
  then have mul: "js_mul (Finite r) (Finite 30) = Finite ?p"
    by (simp add: js_number_finite)
  let ?b = "round_to_double (20 + ?p)"
  have s: "\<bar>20 + ?p\<bar> < 2 ^ 53" using p by simp
  have "of_int 20 \<le> ?b"
    by (rule round_to_double_ge_integer[OF s]) (use p in simp)
  moreover have "?b \<le> of_int 50"
    by (rule round_to_double_le_integer[OF s]) (use p in simp)
  ultimately have b: "20 \<le> ?b" "?b \<le> 50" by simp_all
  then have "js_add (Finite 20) (Finite ?p) = Finite ?b"
    by (simp add: js_number_finite)
  with mul b show ?thesis by simp
qed

text \<open>
  The binade also brackets the number from above, which determines it; with the binade
  known, rounding a given number is a computation on integers.
\<close>

lemma binade_upper:
  assumes "x \<noteq> 0"
  shows "\<bar>x\<bar> < 2 powi (binade x + 1)"
proof (cases "1 \<le> \<bar>x\<bar>")
  case True
  let ?m = "\<lfloor>\<bar>x\<bar>\<rfloor>"
  from True have m: "0 < ?m" by linarith
  then have b: "1 \<le> bitlen ?m" by (simp add: bitlen_alt_def)
  have "?m < 2 ^ nat (bitlen ?m)" using bitlen_bounds[OF m] by simp
  then have "?m + 1 \<le> 2 ^ nat (bitlen ?m)" by simp
  then have "real_of_int (?m + 1) \<le> of_int (2 ^ nat (bitlen ?m))"
    by (simp only: of_int_le_iff)
  moreover have "\<bar>x\<bar> < of_int (?m + 1)" by linarith
  ultimately have "\<bar>x\<bar> < real_of_int (2 ^ nat (bitlen ?m))" by (rule less_le_trans[rotated])
  then have "\<bar>x\<bar> < 2 ^ nat (bitlen ?m)" by simp
  moreover have "binade x + 1 = bitlen ?m" using True by (simp add: binade_def)
  ultimately show ?thesis using b by (simp add: power_int_def)
next
  case False
  let ?y = "1 / \<bar>x\<bar>"
  let ?m = "\<lceil>?y\<rceil>"
  from False assms have x: "0 < \<bar>x\<bar>" "\<bar>x\<bar> < 1" by simp_all
  then have y: "1 < ?y" by simp
  then have m: "0 < ?m - 1" by linarith
  let ?k = "bitlen (?m - 1)"
  from m have k: "1 \<le> ?k" by (simp add: bitlen_alt_def)
  have "(2::int) ^ nat (?k - 1) \<le> ?m - 1" using bitlen_bounds[OF m] by simp
  then have "real_of_int (2 ^ nat (?k - 1)) \<le> of_int (?m - 1)"
    by (simp only: of_int_le_iff)
  moreover have "real_of_int (?m - 1) < ?y" by linarith
  ultimately have "2 ^ nat (?k - 1) < ?y" by simp
  then have "\<bar>x\<bar> < 1 / 2 ^ nat (?k - 1)"
    using x(1) by (simp add: field_simps)
  moreover have "binade x + 1 = - (?k - 1)" using False by (simp add: binade_def)
  ultimately show ?thesis using k x(2)
    by (simp add: power_int_def inverse_eq_divide power_one_over)
qed

lemma two_powi_less_imp_less:
  assumes "(2::real) powi a < 2 powi b"
  shows "a < b"
proof (rule ccontr)
  assume "\<not> a < b"
  then have "(2::real) powi b \<le> 2 powi a"
    by (intro power_int_increasing) simp_all
  with assms show False by simp
qed

lemma binade_eqI:
  assumes "2 powi e \<le> \<bar>x\<bar>" and "\<bar>x\<bar> < 2 powi (e + 1)"
  shows "binade x = e"
proof -
  have "0 < (2::real) powi e" by simp
  with assms(1) have "0 < \<bar>x\<bar>" by linarith
  then have nz: "x \<noteq> 0" by simp
  have "(2::real) powi binade x < 2 powi (e + 1)"
    using binade_lower[OF nz] assms(2) by linarith
  then have "binade x < e + 1" by (rule two_powi_less_imp_less)
  moreover have "(2::real) powi e < 2 powi (binade x + 1)"
    using binade_upper[OF nz] assms(1) by linarith
  then have "e < binade x + 1" by (rule two_powi_less_imp_less)
  ultimately show ?thesis by simp
qed

lemma round_to_double_eval:
  assumes "2 powi e \<le> \<bar>x\<bar>" and "\<bar>x\<bar> < 2 powi (e + 1)" and "- 1022 \<le> e" and "e \<le> 52"
  shows "round_to_double x =
           of_int (round_half_even (x * 2 ^ nat (52 - e))) / 2 ^ nat (52 - e)"
proof -
  have "binade x = e" by (rule binade_eqI[OF assms(1,2)])
  moreover have "0 < (2::real) powi e" by simp
  with assms(1) have "0 < \<bar>x\<bar>" by linarith
  then have "x \<noteq> 0" by simp
  moreover have "(2::real) powi (e - 52) = 1 / 2 ^ nat (52 - e)"
    using assms(4) by (simp add: power_int_def inverse_eq_divide power_one_over nat_diff_distrib')
  ultimately show ?thesis
    using assms(3) by (simp add: round_to_double_def double_quantum_def max_def)
qed

lemma round_to_double_of_int:
  assumes "\<bar>real_of_int n\<bar> < 2 ^ 53"
  shows "round_to_double (of_int n) = of_int n"
  using round_to_double_ge_integer[OF assms, of n] round_to_double_le_integer[OF assms, of n]
  by simp

section \<open>Properties of generateAIPrice\<close>


lemma generateAIPrice_value:
  assumes "arg \<noteq> JUndefined" and "arg \<noteq> JNull"
  shows "generateAIPrice Math_random arg g =
           (Inr (JNumber (Math_round
              (js_add (Finite 20) (js_mul (Finite (fst (Math_random g))) (Finite 30))))),
            snd (Math_random g))"
  using assms by (cases arg) (simp_all add: generateAIPrice_def split_beta)

lemma price_of_draw:
  fixes r :: real
  assumes "0 \<le> r" and "r < 1"
  shows "\<exists>n::int. 20 \<le> n \<and> n \<le> 50 \<and>
           Math_round (js_add (Finite 20) (js_mul (Finite r) (Finite 30))) = Finite (of_int n)"
proof -
  obtain b where b: "js_add (Finite 20) (js_mul (Finite r) (Finite 30)) = Finite b"
    "20 \<le> b" "b \<le> 50"
    using price_base[OF assms] by blast
  let ?n = "\<lfloor>b + 1 / 2\<rfloor>"
  have "20 \<le> ?n" using b(2) by (simp add: le_floor_iff)
  moreover have "b + 1 / 2 < 51" using b(3) by simp
  then have "?n < 51" by (simp add: floor_less_iff)
  then have "?n \<le> 50" by simp
  moreover have "Math_round (Finite b) = Finite (of_int ?n)" by simp
  ultimately show ?thesis using b(1) by auto
qed

text \<open>
  The base \<open>20 + Math.random() * 30\<close> at four draws. At \<open>near_tie\<close> the product rounds
  down to a double, the sum with 20 then falls half-way between two doubles and goes to
  the even one, 33.5, which \<open>Math.round\<close> takes to 34 (in exact arithmetic the base is
  below 33.5). At \<open>just_below_one\<close> the sum rounds up to 50.
\<close>

lemma price_at_half:
  "js_add (Finite 20) (js_mul (Finite (1 / 2)) (Finite 30)) = Finite 35"
  using round_to_double_of_int[of 15] round_to_double_of_int[of 35]
  by (simp add: js_number_def)

lemma price_at_zero:
  "js_add (Finite 20) (js_mul (Finite 0) (Finite 30)) = Finite 20"
  using round_to_double_of_int[of 20]
  by (simp add: js_number_def round_to_double_def)

lemma js_number_eval:
  assumes "round_to_double x = y" and "- 50 \<le> y" and "y \<le> 50"
  shows "js_number x = Finite y"
  using js_number_finite[of x] assms by simp

lemma price_near_tie:
  "js_add (Finite 20) (js_mul (Finite near_tie) (Finite 30)) = Finite (67 / 2)"
proof -
  have m: "round_to_double (near_tie * 30) = 7599824371187711 / 2 ^ 49"
    unfolding near_tie_def
    by (subst round_to_double_eval[where e = 3])
      (simp_all add: power_int_def round_half_even_def Let_def)
  have a: "round_to_double (20 + 7599824371187711 / 2 ^ 49) = 67 / 2"
    by (subst round_to_double_eval[where e = 5])
      (simp_all add: power_int_def round_half_even_def Let_def)
  have "js_mul (Finite near_tie) (Finite 30) = Finite (7599824371187711 / 2 ^ 49)"
    unfolding js_mul.simps by (rule js_number_eval[OF m]) simp_all
  moreover have "js_add (Finite 20) (Finite (7599824371187711 / 2 ^ 49)) = Finite (67 / 2)"
    unfolding js_add.simps by (rule js_number_eval[OF a]) simp_all
  ultimately show ?thesis by (simp only:)
qed

lemma price_just_below_one:
  "js_add (Finite 20) (js_mul (Finite just_below_one) (Finite 30)) = Finite 50"
proof -
  have m: "round_to_double (just_below_one * 30) = 30 - 1 / 2 ^ 48"
    unfolding just_below_one_def
    by (subst round_to_double_eval[where e = 4])
      (simp_all add: power_int_def round_half_even_def Let_def)
  have a: "round_to_double (20 + (30 - 1 / 2 ^ 48)) = 50"
    by (subst round_to_double_eval[where e = 5])
      (simp_all add: power_int_def round_half_even_def Let_def)
  have "js_mul (Finite just_below_one) (Finite 30) = Finite (30 - 1 / 2 ^ 48)"
    unfolding js_mul.simps by (rule js_number_eval[OF m]) simp_all
  moreover have "js_add (Finite 20) (Finite (30 - 1 / 2 ^ 48)) = Finite 50"
    unfolding js_add.simps by (rule js_number_eval[OF a]) simp_all
  ultimately show ?thesis by (simp only:)
qed

lemmas run_eval =
  generateAIPrice_value pending_draws_def listing_new_def listing_poor_def
  price_at_zero price_at_half price_near_tie price_just_below_one

lemma runs_zero_then_half:
  "generateAIPrice pending_draws listing_new [0, 1 / 2] = (Inr (JNumber (Finite 20)), [1 / 2])"
  "generateAIPrice pending_draws listing_new [1 / 2] = (Inr (JNumber (Finite 35)), [])"
  "generateAIPrice pending_draws listing_poor [1 / 2] = (Inr (JNumber (Finite 35)), [])"
  "generateAIPrice pending_draws listing_new [1 / 2, 0] = (Inr (JNumber (Finite 35)), [0])"
  by (simp_all add: run_eval del: js_add.simps js_mul.simps)

lemma runs_in_doubles:
  "generateAIPrice pending_draws listing_new [near_tie] = (Inr (JNumber (Finite 34)), [])"
  "generateAIPrice pending_draws listing_new [just_below_one] = (Inr (JNumber (Finite 50)), [])"
  by (simp_all add: run_eval del: js_add.simps js_mul.simps)

text \<open>
  Claim C8. For every input object and every number \<open>0 \<le> r < 1\<close> that \<open>Math.random\<close>
  hands to the run, \<open>generateAIPrice\<close> returns an integer between 20 and 50 inclusive
  (and leaves the generator in the state after that one draw), and the value does not
  depend on the fields of the object, \<open>category\<close> and \<open>condition\<close> among them: any two
  objects give the same price on the same draw.
\<close>

theorem generateAIPrice_integer_20_to_50:
  assumes "Math_random g = (r, g')" and "0 \<le> r" and "r < 1"
  shows "\<exists>n::int. 20 \<le> n \<and> n \<le> 50 \<and>
           generateAIPrice Math_random (JObject kvs) g =
             (Inr (JNumber (Finite (of_int n))), g') \<and>
           generateAIPrice Math_random (JObject kvs') g =
             (Inr (JNumber (Finite (of_int n))), g')"
proof -
  obtain n :: int where n: "20 \<le> n" "n \<le> 50"
    "Math_round (js_add (Finite 20) (js_mul (Finite r) (Finite 30))) = Finite (of_int n)"
    using price_of_draw[OF assms(2,3)] by blast
  have "generateAIPrice Math_random (JObject kvs) g = (Inr (JNumber (Finite (of_int n))), g')"
    for kvs
    using assms(1) n(3) by (simp add: generateAIPrice_value)
  with n(1,2) show ?thesis by blast
qed

theorem generateAIPrice_integer_20_to_50_witness:
  "pending_draws [1 / 2] = (1 / 2, []) \<and> (0::real) \<le> 1 / 2 \<and> (1 / 2 :: real) < 1 \<and>
   generateAIPrice pending_draws listing_new [1 / 2] = (Inr (JNumber (Finite 35)), []) \<and>
   generateAIPrice pending_draws listing_poor [1 / 2] = (Inr (JNumber (Finite 35)), [])"
  using generateAIPrice_integer_20_to_50[of pending_draws "[1 / 2]" "1 / 2" "[]"
      "[(''category'', JString ''dress''), (''condition'', JString ''new'')]"
      "[(''category'', JString ''dress''), (''condition'', JString ''poor'')]"]
  by (simp add: runs_zero_then_half) (simp add: pending_draws_def)




section \<open>Properties of the form validator\<close>

lemma validateField_extends:
  "\<exists>more. snd (validateField pf fld calls) = calls @ more"
  unfolding validateField_def Let_def by simp

lemma validateForm_step_extends:
  "\<exists>more. snd (validateForm_step pf doc st i) = snd st @ more"
proof (cases "doc i")
  case None
  then show ?thesis by (simp add: validateForm_step_def)
next
  case (Some fld)
  obtain more where "snd (validateField pf fld (snd st)) = snd st @ more"
    using validateField_extends by blast
  with Some show ?thesis
    by (simp add: validateForm_step_def split_beta)
qed

lemma validateForm_step_stays_invalid:
  "\<not> fst st \<Longrightarrow> \<not> fst (validateForm_step pf doc st i)"
  by (cases "doc i") (simp_all add: validateForm_step_def split_beta)

lemma validateForm_loop_extends:
  "\<exists>more. snd (foldl (validateForm_step pf doc) st ids) = snd st @ more"
proof (induction ids arbitrary: st)
  case Nil
  show ?case by simp
next
  case (Cons i ids)
  obtain m1 where m1: "snd (validateForm_step pf doc st i) = snd st @ m1"
    using validateForm_step_extends by blast
  obtain m2 where
    "snd (foldl (validateForm_step pf doc) (validateForm_step pf doc st i) ids) =
       snd (validateForm_step pf doc st i) @ m2"
    using Cons.IH by blast
  with m1 show ?case by simp
qed

lemma validateForm_loop_stays_invalid:
  "\<not> fst st \<Longrightarrow> \<not> fst (foldl (validateForm_step pf doc) st ids)"
  by (induction ids arbitrary: st) (simp_all add: validateForm_step_stays_invalid)

lemmas validator_eval =
  validateForm_def validateForm_step_def validateField_def or_default_def trim_def
  js_whitespace_def parseFloat_dec_def is_digit_def digits_value_def pow10_def
  exponent_part_def title_field_def price_field_def zero_field_def page_def no_images_def

text \<open>
  Claim C9. Whenever the list of uploaded images is empty (given empty or left out),
  \<open>validateForm\<close> returns false and reports 'Please upload at least one image' through
  \<open>onError\<close>, as its first report, whatever the required field ids and the fields of
  the page are; so a form never validates without an uploaded image.
\<close>

theorem validateForm_requires_image:
  assumes "or_default (uploadedImages args) [] = []"
  shows "fst (validateForm pf doc args calls) = False \<and>
         (\<exists>more. snd (validateForm pf doc args calls) =
            calls @ (None, ''Please upload at least one image'') # more)"
proof -
  let ?st = "(False, calls @ [(None, ''Please upload at least one image'')])"
  let ?ids = "or_default (requiredFieldIds args) []"
  have run: "validateForm pf doc args calls = foldl (validateForm_step pf doc) ?st ?ids"
    using assms by (simp add: validateForm_def Let_def)
  have "\<not> fst (foldl (validateForm_step pf doc) ?st ?ids)"
    by (rule validateForm_loop_stays_invalid) simp
  moreover obtain more where
    "snd (foldl (validateForm_step pf doc) ?st ?ids) = snd ?st @ more"
    using validateForm_loop_extends by blast
  ultimately show ?thesis
    unfolding run by simp
qed

theorem validateForm_requires_image_witness:
  "or_default (uploadedImages no_images) [] = [] \<and>
   validateForm parseFloat_dec page no_images [] =
     (False, [(None, ''Please upload at least one image''),
              (Some title_field, ''Title must be at least 10 characters'')])"
  using validateForm_requires_image[of no_images parseFloat_dec page "[]"]
  by (simp add: validator_eval)

text \<open>
  Claim C10. With \<open>v\<close> the trimmed value of the field, \<open>validateField\<close> returns false and
  calls \<open>onError\<close> (once, with the field and a non-empty message) exactly when \<open>v\<close> is
  empty, or the field's type is 'number' and the parsed value is \<open>\<le> 0\<close>, or the field
  is 'title-input' and \<open>v\<close> is shorter than 10, or the field is 'description-input' and
  \<open>v\<close> is shorter than 20; in every other case it returns true and makes no call.
\<close>

theorem validateField_rejects_iff:
  fixes pf fld calls
  defines "v \<equiv> trim (field_value fld)"
  defines "rejected \<equiv>
     v = [] \<or>
     (field_type fld = ''number'' \<and> js_le (pf v) (Finite 0)) \<or>
     (field_id fld = ''title-input'' \<and> length v < 10) \<or>
     (field_id fld = ''description-input'' \<and> length v < 20)"
  shows "fst (validateField pf fld calls) = (\<not> rejected) \<and>
         (\<exists>msg. msg \<noteq> [] \<and>
            snd (validateField pf fld calls) =
              (if rejected then calls @ [(Some fld, msg)] else calls))"
  unfolding validateField_def Let_def v_def rejected_def
  by auto

theorem validateField_rejects_iff_witness:
  "validateField parseFloat_dec zero_field [] =
     (False, [(Some zero_field, ''Please enter a valid number'')]) \<and>
   validateField parseFloat_dec title_field [] =
     (False, [(Some title_field, ''Title must be at least 10 characters'')]) \<and>
   validateField parseFloat_dec price_field [] = (True, [])"
  using validateField_rejects_iff[of parseFloat_dec zero_field "[]"]
    validateField_rejects_iff[of parseFloat_dec title_field "[]"]
    validateField_rejects_iff[of parseFloat_dec price_field "[]"]
  by (simp add: validator_eval)

section \<open>Properties of the normaliser\<close>

lemma positive_price_Some:
  assumes "positive_price cfg l = Some p"
  shows "0 < p" and "\<exists>raw. raw_price l = Some raw \<and> parse_price cfg raw = Some p"
  using assms by (auto simp: positive_price_def split: option.splits if_splits)

lemma to_comparable_Some:
  assumes "to_comparable cfg q l = Some e"
  shows "positive_price cfg l = Some (price e)" and "relevant q l"
  using assms by (auto simp: to_comparable_def split: option.splits if_splits)

lemma candidates_origin:
  assumes "e \<in> set (candidates cfg q ls)"
  shows "\<exists>l \<in> set ls. to_comparable cfg q l = Some e"
  using assms by (auto simp: candidates_def List.map_filter_def)

lemma length_candidates:
  "length (candidates cfg q ls) \<le> length (filter (\<lambda>l. positive_price cfg l \<noteq> None) ls)"
proof (induction ls)
  case Nil
  show ?case by (simp add: candidates_def map_filter_simps)
next
  case (Cons l ls)
  show ?case
  proof (cases "to_comparable cfg q l")
    case None
    with Cons show ?thesis by (simp add: candidates_def map_filter_simps)
  next
    case (Some e)
    then have "positive_price cfg l \<noteq> None"
      using to_comparable_Some(1) by fastforce
    with Cons Some show ?thesis by (simp add: candidates_def map_filter_simps)
  qed
qed

lemma set_reject_outliers: "set (reject_outliers es) \<subseteq> set es"
  by (auto simp: reject_outliers_def split: prod.splits)

lemma length_reject_outliers: "length (reject_outliers es) \<le> length es"
  by (simp add: reject_outliers_def split: prod.splits)

lemmas listing_eval =
  to_comparable_def positive_price_def relevant_def query_tokens_def lower_char_def
  example_config_def decimal_comma_price_def parseFloat_dec_def js_whitespace_def
  is_digit_def digits_value_def pow10_def exponent_part_def or_default_def trim_def
  nike_query_def listing_def comparable_at_def

lemma scenario_listings:
  "to_comparable example_config nike_query (listing ''12,50 EUR'' ''Felpa Nike nera'') =
     Some (comparable_at (25 / 2))"
  "to_comparable example_config nike_query (listing ''14 EUR'' ''Nike felpa M'') =
     Some (comparable_at 14)"
  "to_comparable example_config nike_query (listing ''13 EUR'' ''FELPA NIKE'') =
     Some (comparable_at 13)"
  "to_comparable example_config nike_query (listing ''bad'' ''Felpa Nike'') = None"
  "to_comparable example_config nike_query (listing ''1000 EUR'' ''Felpa Nike oro'') =
     Some (comparable_at 1000)"
  by (simp_all add: listing_eval)

lemma scenario_candidates:
  "candidates example_config nike_query scenario =
     [comparable_at (25 / 2), comparable_at 14, comparable_at 13, comparable_at 1000]"
  by (simp add: scenario_def candidates_def map_filter_simps scenario_listings)

lemma scenario_tail_candidates:
  "candidates example_config nike_query (tl scenario) =
     [comparable_at 14, comparable_at 13, comparable_at 1000]"
  by (simp add: scenario_def candidates_def map_filter_simps scenario_listings)

lemma scenario_trimmed:
  "reject_outliers
     [comparable_at (25 / 2), comparable_at 14, comparable_at 13, comparable_at 1000] =
     [comparable_at (25 / 2), comparable_at 14, comparable_at 13]"
  by (simp add: reject_outliers_def fences_def quantile_def comparable_at_def)

lemma scenario_normalized:
  "normalize example_config scenario nike_query =
     Inr [comparable_at (25 / 2), comparable_at 14, comparable_at 13]"
  by (simp add: normalize_def scenario_candidates scenario_trimmed) (simp add: nike_query_def)

lemma scenario_tail_normalized:
  "normalize example_config (tl scenario) nike_query =
     Inr [comparable_at 14, comparable_at 13, comparable_at 1000]"
  by (simp add: normalize_def scenario_tail_candidates reject_outliers_def)
    (simp add: nike_query_def)

text \<open>
  Claim C7. \<open>normalize\<close> fails only with InvalidQuery, and exactly when the query has
  neither brand nor type; with a brand or a type it returns a sample whatever the
  listings are. A listing whose price is missing, unreadable or not positive
  contributes nothing: the sample is no longer than the list of listings with a
  positive parsed price, and every price in it is the positive parsed price of one of
  the listings, never a zero or a made-up value.
\<close>

theorem normalize_fails_only_on_invalid_query:
  "(normalize cfg ls q = Inl InvalidQuery \<longleftrightarrow> brand q = None \<and> item_type q = None) \<and>
   (\<not> (brand q = None \<and> item_type q = None) \<longrightarrow> (\<exists>s. normalize cfg ls q = Inr s)) \<and>
   (\<forall>s. normalize cfg ls q = Inr s \<longrightarrow>
      length s \<le> length (filter (\<lambda>l. positive_price cfg l \<noteq> None) ls) \<and>
      (\<forall>e \<in> set s. 0 < price e \<and>
         (\<exists>l \<in> set ls. \<exists>raw. raw_price l = Some raw \<and>
            parse_price cfg raw = Some (price e))))"
proof (intro conjI allI impI)
  show "normalize cfg ls q = Inl InvalidQuery \<longleftrightarrow> brand q = None \<and> item_type q = None"
    by (simp add: normalize_def)
next
  assume "\<not> (brand q = None \<and> item_type q = None)"
  then show "\<exists>s. normalize cfg ls q = Inr s" by (simp add: normalize_def)
next
  fix s assume "normalize cfg ls q = Inr s"
  then have eq: "s = reject_outliers (candidates cfg q ls)"
    by (simp add: normalize_def split: if_splits)
  have "length s \<le> length (candidates cfg q ls)"
    unfolding eq by (rule length_reject_outliers)
  also have "\<dots> \<le> length (filter (\<lambda>l. positive_price cfg l \<noteq> None) ls)"
    by (rule length_candidates)
  finally show "length s \<le> length (filter (\<lambda>l. positive_price cfg l \<noteq> None) ls)" .
  show "\<forall>e \<in> set s. 0 < price e \<and>
         (\<exists>l \<in> set ls. \<exists>raw. raw_price l = Some raw \<and>
            parse_price cfg raw = Some (price e))"
  proof
    fix e assume "e \<in> set s"
    then have "e \<in> set (candidates cfg q ls)"
      using set_reject_outliers eq by blast
    then obtain l where l: "l \<in> set ls" "to_comparable cfg q l = Some e"
      using candidates_origin by blast
    then have "positive_price cfg l = Some (price e)"
      using to_comparable_Some(1) by blast
    then have "0 < price e"
      and "\<exists>raw. raw_price l = Some raw \<and> parse_price cfg raw = Some (price e)"
      using positive_price_Some by blast+
    with l(1) show "0 < price e \<and>
         (\<exists>l \<in> set ls. \<exists>raw. raw_price l = Some raw \<and>
            parse_price cfg raw = Some (price e))"
      by blast
  qed
qed

theorem normalize_fails_only_on_invalid_query_witness:
  "normalize example_config scenario empty_query = Inl InvalidQuery \<and>
   brand nike_query = Some ''Nike'' \<and>
   normalize example_config scenario nike_query =
     Inr [comparable_at (25 / 2), comparable_at 14, comparable_at 13] \<and>
   positive_price example_config (listing ''bad'' ''Felpa Nike'') = None"
  using normalize_fails_only_on_invalid_query[of example_config scenario empty_query]
    normalize_fails_only_on_invalid_query[of example_config scenario nike_query]
  by (simp add: scenario_normalized)
    (simp add: empty_query_def nike_query_def listing_eval)

text \<open>
  Claim C5. For a query with a brand or a type, \<open>normalize\<close> returns the listings that
  remain after price parsing, relevance filtering and condition mapping, untouched
  when fewer than 4 remain, and otherwise without those whose price lies outside
  \<open>[Q1 - 1.5 IQR, Q3 + 1.5 IQR]\<close>, Q1 and Q3 being the quartiles of the remaining prices
  and IQR their difference.
\<close>

theorem normalize_rejects_outliers:
  fixes cfg q ls
  defines "cand \<equiv> candidates cfg q ls"
  defines "q1 \<equiv> quantile (1 / 4) (map price cand)"
  defines "q3 \<equiv> quantile (3 / 4) (map price cand)"
  assumes "\<not> (brand q = None \<and> item_type q = None)"
  shows "normalize cfg ls q =
           Inr (if length cand < 4 then cand
                else filter (\<lambda>e. q1 - 1.5 * (q3 - q1) \<le> price e \<and>
                                 price e \<le> q3 + 1.5 * (q3 - q1)) cand)"
  using assms(4)
  unfolding cand_def q1_def q3_def normalize_def reject_outliers_def fences_def Let_def
  by simp

theorem normalize_rejects_outliers_witness:
  "brand nike_query = Some ''Nike'' \<and>
   length (candidates example_config nike_query scenario) = 4 \<and>
   normalize example_config scenario nike_query =
     Inr [comparable_at (25 / 2), comparable_at 14, comparable_at 13] \<and>
   length (candidates example_config nike_query (tl scenario)) = 3 \<and>
   normalize example_config (tl scenario) nike_query =
     Inr [comparable_at 14, comparable_at 13, comparable_at 1000]"
  using normalize_rejects_outliers[where q = nike_query and cfg = example_config and ls = scenario]
    normalize_rejects_outliers
      [where q = nike_query and cfg = example_config and ls = "tl scenario"]
  by (simp add: scenario_normalized scenario_tail_normalized scenario_candidates
      scenario_tail_candidates)
    (simp add: nike_query_def)

section \<open>Properties of the estimator\<close>

lemma confidence_of_sample:
  assumes "sample \<noteq> []"
  shows "confidence (estimate cfg default_price sample cond) = confidence_of (map price sample)"
  using assms by (simp add: estimate_def Let_def split_beta)

text \<open>
  On a sample of positive prices the mean is positive, so the coefficient of variation
  is a quotient by a positive number, and comparing it with a bound needs no square
  root: \<open>stdev / mean < t\<close> exactly when the variance is below \<open>(t * mean)\<^sup>2\<close>.
\<close>

lemma mean_positive:
  assumes "xs \<noteq> []" and "\<forall>x \<in> set xs. 0 < x"
  shows "0 < mean xs"
proof -
  have "0 < sum_list xs"
    using assms by (induction xs) (auto intro: add_pos_nonneg sum_list_nonneg less_imp_le)
  moreover have "0 < real (length xs)" using assms(1) by simp
  ultimately show ?thesis by (simp add: mean_def)
qed

lemma coefficient_of_variation_below_iff:
  assumes "0 < mean xs" and "0 \<le> t"
  shows "coefficient_of_variation xs < t \<longleftrightarrow>
         sum_list (map (\<lambda>x. (x - mean xs)\<^sup>2) xs) / real (length xs) < (t * mean xs)\<^sup>2"
proof -
  let ?v = "sum_list (map (\<lambda>x. (x - mean xs)\<^sup>2) xs) / real (length xs)"
  have "coefficient_of_variation xs < t \<longleftrightarrow> sqrt ?v < t * mean xs"
    using assms(1) by (simp add: coefficient_of_variation_def stdev_def pos_divide_less_eq)
  also have "\<dots> \<longleftrightarrow> sqrt ?v < sqrt ((t * mean xs)\<^sup>2)"
    using assms by simp
  also have "\<dots> \<longleftrightarrow> ?v < (t * mean xs)\<^sup>2"
    by (rule real_sqrt_less_iff)
  finally show ?thesis .
qed

lemma sqrt_25: "sqrt 25 = 5"
  by (rule real_sqrt_unique) simp_all

lemmas confidence_eval =
  confidence_of_sample confidence_of_def coefficient_of_variation_def stdev_def mean_def
  comparable_at_def power2_eq_square sqrt_25

lemma steady_sample_cv:
  "coefficient_of_variation [10, 12, 14, 9, 11, 10, 13, 11] < 0.3"
proof -
  have m: "mean [10, 12, 14, 9, 11, 10, 13, 11] = 45 / 4"
    by (simp add: mean_def)
  show ?thesis
    by (subst coefficient_of_variation_below_iff) (simp_all add: m power2_eq_square)
qed

lemma steady_sample_confidence:
  "confidence
     (estimate example_config 20 (map comparable_at [10, 12, 14, 9, 11, 10, 13, 11]) Good) =
   High"
  using steady_sample_cv
  by (simp add: confidence_of_sample confidence_of_def comparable_at_def)

lemma spread_sample_confidence:
  "coefficient_of_variation [5, 15, 5, 15, 5, 15, 5, 15] = 1 / 2"
  "confidence
     (estimate example_config 20 (map comparable_at [5, 15, 5, 15, 5, 15, 5, 15]) Good) =
   Medium"
  by (simp_all add: confidence_eval)

lemma small_sample_confidence:
  "confidence (estimate example_config 20 (map comparable_at [5, 15]) Good) = Low"
  by (simp add: confidence_eval)

lemma fallback_confidence:
  "confidence (estimate cfg default_price [] cond) = Low"
  by (simp add: estimate_def)

text \<open>
  Two facts about the modelled estimator. The recommended price lies within the price
  range whenever the adjusted range is ordered, because of the clamp. With the
  specification's example factor table the estimate for "new" exceeds the one for
  "poor" on the sample 10, 10, 10, but on the sample 1, 1, 2, 3, 3 integer rounding
  makes the two coincide.
\<close>

lemma estimate_price_within_range:
  assumes "sample \<noteq> []"
    and "fst (price_range (estimate cfg default_price sample cond)) \<le>
         snd (price_range (estimate cfg default_price sample cond))"
  shows "fst (price_range (estimate cfg default_price sample cond)) \<le>
           recommended_price (estimate cfg default_price sample cond) \<and>
         recommended_price (estimate cfg default_price sample cond) \<le>
           snd (price_range (estimate cfg default_price sample cond))"
  using assms by (simp add: estimate_def Let_def split_beta clamp_def)

lemma estimate_new_and_poor:
  "recommended_price (estimate example_config 20 (map comparable_at [10, 10, 10]) New) = 12"
  "recommended_price (estimate example_config 20 (map comparable_at [10, 10, 10]) Poor) = 8"
  "recommended_price (estimate example_config 20 (map comparable_at [1, 1, 2, 3, 3]) New) = 2"
  "recommended_price (estimate example_config 20 (map comparable_at [1, 1, 2, 3, 3]) Poor) = 2"
  by (simp_all add: estimate_def example_config_def comparable_at_def median_def quantile_def
      adjusted_range_def round_to_unit_def clamp_def Let_def round_def)

text \<open>
  Claim C6. With \<open>n\<close> the size of the sample and \<open>cv\<close> the coefficient of variation
  (stdev/mean) of its prices, the confidence of \<open>estimate\<close>'s result is high exactly
  when \<open>n \<ge> 8\<close> and \<open>cv < 0.3\<close>, medium exactly when \<open>n \<ge> 3\<close> and it is not high, and low
  exactly in the remaining cases, the empty sample's fallback among them.
\<close>

theorem estimate_confidence_levels:
  fixes cfg default_price sample cond
  defines "n \<equiv> length sample"
  defines "cv \<equiv> coefficient_of_variation (map price sample)"
  defines "c \<equiv> confidence (estimate cfg default_price sample cond)"
  shows "(c = High \<longleftrightarrow> 8 \<le> n \<and> cv < 0.3) \<and>
         (c = Medium \<longleftrightarrow> 3 \<le> n \<and> \<not> (8 \<le> n \<and> cv < 0.3)) \<and>
         (c = Low \<longleftrightarrow> \<not> (8 \<le> n \<and> cv < 0.3) \<and> \<not> 3 \<le> n)"
proof (cases "sample = []")
  case True
  then show ?thesis
    unfolding n_def cv_def c_def by (simp add: estimate_def)
next
  case False
  then have "confidence (estimate cfg default_price sample cond) =
      confidence_of (map price sample)"
    by (rule confidence_of_sample)
  then show ?thesis
    unfolding n_def cv_def c_def by (simp add: confidence_of_def)
qed

theorem estimate_confidence_levels_witness:
  "confidence
     (estimate example_config 20 (map comparable_at [10, 12, 14, 9, 11, 10, 13, 11]) Good) =
     High \<and>
   coefficient_of_variation [5, 15, 5, 15, 5, 15, 5, 15] = 1 / 2 \<and>
   confidence
     (estimate example_config 20 (map comparable_at [5, 15, 5, 15, 5, 15, 5, 15]) Good) =
     Medium \<and>
   confidence (estimate example_config 20 (map comparable_at [5, 15]) Good) = Low \<and>
   confidence (estimate example_config 20 [] Good) = Low"
  using estimate_confidence_levels
      [of example_config 20 "map comparable_at [10, 12, 14, 9, 11, 10, 13, 11]" Good]
    estimate_confidence_levels
      [of example_config 20 "map comparable_at [5, 15, 5, 15, 5, 15, 5, 15]" Good]
    estimate_confidence_levels[of example_config 20 "map comparable_at [5, 15]" Good]
    estimate_confidence_levels[of example_config 20 "[]" Good]
  by (simp only: steady_sample_confidence spread_sample_confidence small_sample_confidence
      fallback_confidence simp_thms)

end
